theory Spec2Isabelle
  imports Main "HOL-Library.Char_ord"
begin

section \<open>The keypad code API of the locker firmware (vestiar\_code\_api.h)\<close>

text \<open>
  The header serves one path, \<^verbatim>\<open>/api/code\<close>, of the device's web server: GET tells
  whether a master code is set, POST sets or changes it, OPTIONS answers the CORS
  preflight. The code lives in the global \<^verbatim>\<open>masterCode\<close> and in the file
  \<^verbatim>\<open>/code.json\<close> of the flash file system.

  The header calls three libraries whose code is not part of the repository: ArduinoJson,
  LittleFS and ESP8266WebServer. What they return is an input of the model: the two JSON
  functions are parameters of every function that calls them, and whether
  \<^verbatim>\<open>LittleFS.open\<close> yields a usable file is a boolean argument. Every theorem
  holds for all values of these inputs. The diagnostic output on \<^verbatim>\<open>Serial\<close> is left out.
\<close>

subsection \<open>JSON documents\<close>

text \<open>
  A \<^verbatim>\<open>DynamicJsonDocument\<close> after parsing or filling: a JSON value. An object keeps
  its members in order. The string of \<open>JStr\<close> is the C string a
  \<^verbatim>\<open>const char*\<close> read of the value points to.
\<close>

datatype json =
    JNull
  | JBool bool
  | JInt int
  | JStr string
  | JArr "json list"
  | JObj "(string \<times> json) list"

text \<open>
  \<^verbatim>\<open>d[key]\<close>: the member of an object, a null value when the document is not an
  object or has no such member.
\<close>

fun getMember :: "json \<Rightarrow> string \<Rightarrow> json" where
  "getMember (JObj kvs) key = (case map_of kvs key of Some v \<Rightarrow> v | None \<Rightarrow> JNull)"
| "getMember _ key = JNull"

text \<open>
  \<^verbatim>\<open>v | dflt\<close> at type \<^verbatim>\<open>const char*\<close>: the string when the value is a string,
  the default otherwise. A C string is a \<open>string option\<close>, \<open>None\<close> for
  \<^verbatim>\<open>nullptr\<close>.
\<close>

fun variant_or :: "json \<Rightarrow> string option \<Rightarrow> string option" where
  "variant_or (JStr s) dflt = Some s"
| "variant_or _ dflt = dflt"

text \<open>\<^verbatim>\<open>String(const char*)\<close>: a null pointer gives the empty String.\<close>

fun String :: "string option \<Rightarrow> string" where
  "String None = []"
| "String (Some s) = s"

text \<open>
  The two library functions the header calls. \<open>deserializeJson\<close> takes the capacity of
  the document it fills and the text; \<open>None\<close> is a \<^verbatim>\<open>DeserializationError\<close>.
\<close>

record arduinojson =
  deserializeJson :: "nat \<Rightarrow> string \<Rightarrow> json option"
  serializeJson :: "json \<Rightarrow> string"

subsection \<open>State and responses\<close>

text \<open>
  The global \<^verbatim>\<open>masterCode\<close> and the files of LittleFS (path to contents).
\<close>

record state =
  masterCode :: string
  fs :: "string \<rightharpoonup> string"

definition FILE_CODE :: string where
  "FILE_CODE = ''/code.json''"

text \<open>
  What \<^verbatim>\<open>server.send\<close> emits: the status, the content type, the headers queued with
  \<^verbatim>\<open>server.sendHeader\<close> before it, and the body.
\<close>

record response =
  status :: int
  content_type :: string
  headers :: "(string \<times> string) list"
  body :: string

definition sendJsonWithCORS :: "int \<Rightarrow> string \<Rightarrow> response" where
  "sendJsonWithCORS code content =
     \<lparr>status = code,
      content_type = ''application/json'',
      headers = [(''Access-Control-Allow-Origin'', ''*''),
                 (''Access-Control-Allow-Methods'', ''GET,POST,OPTIONS''),
                 (''Access-Control-Allow-Headers'', ''Content-Type'')],
      body = content\<rparr>"

subsection \<open>The code store\<close>

text \<open>
  \<open>loadCode\<close> and \<open>saveCode\<close> return the C++ result and the state they leave.
  \<open>file_ok\<close> says whether \<^verbatim>\<open>LittleFS.open\<close> gave a usable file. A successful
  open for writing truncates the file, and \<^verbatim>\<open>serializeJson(d, f)\<close> writes the whole
  text (the source does not look at what it returns).
\<close>

definition loadCode :: "arduinojson \<Rightarrow> bool \<Rightarrow> state \<Rightarrow> bool \<times> state" where
  "loadCode L file_ok st =
     (case fs st FILE_CODE of
        None \<Rightarrow> (False, st)
      | Some text \<Rightarrow>
          if \<not> file_ok then (False, st)
          else (case deserializeJson L 128 text of
                  None \<Rightarrow> (False, st)
                | Some d \<Rightarrow>
                    (case variant_or (getMember d ''code'') None of
                       None \<Rightarrow> (False, st)
                     | Some c \<Rightarrow> (True, st\<lparr>masterCode := String (Some c)\<rparr>))))"

definition saveCode :: "arduinojson \<Rightarrow> bool \<Rightarrow> string \<Rightarrow> state \<Rightarrow> bool \<times> state" where
  "saveCode L file_ok code st =
     (let d = JObj [(''code'', JStr code)] in
      if \<not> file_ok then (False, st)
      else (True, st\<lparr>fs := (fs st)(FILE_CODE \<mapsto> serializeJson L d), masterCode := code\<rparr>))"

subsection \<open>The handlers\<close>

definition handleCodeGet :: "arduinojson \<Rightarrow> state \<Rightarrow> response \<times> state" where
  "handleCodeGet L st =
     (let d = JObj [(''set'', JBool (length (masterCode st) > 0)),
                    (''len'', JInt (int (length (masterCode st))))]
      in (sendJsonWithCORS 200 (serializeJson L d), st))"

text \<open>
  The lambda \<open>isDigits\<close> of the POST handler. The order on \<open>char\<close> is the one of
  the byte values; a byte above 127 is rejected whether the C++ \<^verbatim>\<open>char\<close> is signed
  (it is below \<^verbatim>\<open>'0'\<close>) or not (it is above \<^verbatim>\<open>'9'\<close>).
\<close>

fun isDigits :: "string \<Rightarrow> bool" where
  "isDigits [] = True"
| "isDigits (c # cs) = (if c < CHR ''0'' \<or> c > CHR ''9'' then False else isDigits cs)"

text \<open>
  \<open>plain\<close> is the request's argument \<^verbatim>\<open>"plain"\<close> (the raw body), \<open>None\<close> when
  \<^verbatim>\<open>server.hasArg("plain")\<close> is false.
\<close>

definition handleCodePost ::
  "arduinojson \<Rightarrow> bool \<Rightarrow> string option \<Rightarrow> state \<Rightarrow> response \<times> state" where
  "handleCodePost L file_ok plain st =
     (case plain of
        None \<Rightarrow> (sendJsonWithCORS 400 ''{\"ok\":false,\"err\":\"no_body\"}'', st)
      | Some arg \<Rightarrow>
          (case deserializeJson L 256 arg of
             None \<Rightarrow> (sendJsonWithCORS 400 ''{\"ok\":false,\"err\":\"json\"}'', st)
           | Some d \<Rightarrow>
               (let current = String (variant_or (getMember d ''current'') (Some ''''));
                    news = String (variant_or (getMember d ''new'') (Some ''''));
                    confirm = String (variant_or (getMember d ''confirm'') (Some ''''))
                in
                if length news < 4 \<or> length news > 8 \<or> \<not> isDigits news then
                  (sendJsonWithCORS 400 ''{\"ok\":false,\"err\":\"fmt\",\"hint\":\"4-8 cifre\"}'', st)
                else if news \<noteq> confirm then
                  (sendJsonWithCORS 400 ''{\"ok\":false,\"err\":\"confirm\"}'', st)
                else if length (masterCode st) > 0 \<and> current \<noteq> masterCode st then
                  (sendJsonWithCORS 403 ''{\"ok\":false,\"err\":\"current\"}'', st)
                else
                  (case saveCode L file_ok news st of
                     (False, st') \<Rightarrow> (sendJsonWithCORS 500 ''{\"ok\":false,\"err\":\"save\"}'', st')
                   | (True, st') \<Rightarrow> (sendJsonWithCORS 200 ''{\"ok\":true}'', st')))))"

subsection \<open>The routes\<close>

text \<open>
  A request on \<^verbatim>\<open>/api/code\<close>, by method; a POST carries its \<open>plain\<close> argument.
  \<open>registerCodeApi\<close> is the table the source registers, as the function the server
  applies to a request. \<open>run\<close> serves a sequence of requests one after the other
  (the server handles one request at a time), each with the file system's answer to an
  open during it.
\<close>

datatype request = GET | POST "string option" | OPTIONS

definition registerCodeApi ::
  "arduinojson \<Rightarrow> bool \<Rightarrow> request \<Rightarrow> state \<Rightarrow> response \<times> state" where
  "registerCodeApi L file_ok req st =
     (case req of
        GET \<Rightarrow> handleCodeGet L st
      | POST plain \<Rightarrow> handleCodePost L file_ok plain st
      | OPTIONS \<Rightarrow>
          (\<lparr>status = 204,
            content_type = ''text/plain'',
            headers = [(''Access-Control-Allow-Origin'', ''*''),
                       (''Access-Control-Allow-Methods'', ''GET,POST,OPTIONS''),
                       (''Access-Control-Allow-Headers'', ''Content-Type'')],
            body = ''''\<rparr>, st))"

fun run :: "arduinojson \<Rightarrow> (bool \<times> request) list \<Rightarrow> state \<Rightarrow> state" where
  "run L [] st = st"
| "run L ((file_ok, req) # rest) st = run L rest (snd (registerCodeApi L file_ok req st))"

subsection \<open>The format of a code, in the specification's words\<close>

text \<open>
  The specification's \<^verbatim>\<open>^[0-9]{4,8}$\<close>: four to eight characters, each an ASCII decimal
  digit. It is stated apart from \<open>isDigits\<close> and the length tests of the handler, and
  compared with them below.
\<close>

definition four_to_eight_digits :: "string \<Rightarrow> bool" where
  "four_to_eight_digits s \<longleftrightarrow>
     4 \<le> length s \<and> length s \<le> 8 \<and> set s \<subseteq> set ''0123456789''"

text \<open>
  A string field of a request body as the POST handler reads it: the member's string, and
  the empty string when the member is missing or not a string.
\<close>

abbreviation field_or_empty :: "json \<Rightarrow> string \<Rightarrow> string" where
  "field_or_empty d key \<equiv> String (variant_or (getMember d key) (Some ''''))"

subsection \<open>An instance of the JSON library for the worked examples\<close>

text \<open>
  The theorems hold for every parser and every serializer. The examples need one of each.
  \<open>compact\<close> writes a document the way \<^verbatim>\<open>serializeJson\<close> does: no white space,
  members in order. \<open>example_documents\<close> lists the texts the examples parse, each with
  the document it denotes; the example parser knows these and rejects any other text.
\<close>

fun decimal :: "nat \<Rightarrow> string" where
  "decimal n =
     (if n < 10 then [''0123456789'' ! n]
      else decimal (n div 10) @ [''0123456789'' ! (n mod 10)])"

declare decimal.simps [simp del]

fun escaped :: "string \<Rightarrow> string" where
  "escaped [] = []"
| "escaped (c # cs) =
     (if c = CHR 0x22 \<or> c = CHR 0x5C then CHR 0x5C # c # escaped cs else c # escaped cs)"

fun compact :: "json \<Rightarrow> string"
  and compact_elements :: "json list \<Rightarrow> string"
  and compact_members :: "(string \<times> json) list \<Rightarrow> string" where
  "compact JNull = ''null''"
| "compact (JBool b) = (if b then ''true'' else ''false'')"
| "compact (JInt i) = (if i < 0 then CHR ''-'' # decimal (nat (- i)) else decimal (nat i))"
| "compact (JStr s) = CHR 0x22 # escaped s @ [CHR 0x22]"
| "compact (JArr vs) = CHR ''['' # compact_elements vs @ '']''"
| "compact (JObj kvs) = CHR ''{'' # compact_members kvs @ ''}''"
| "compact_elements [] = []"
| "compact_elements [v] = compact v"
| "compact_elements (v # vs) = compact v @ CHR '','' # compact_elements vs"
| "compact_members [] = []"
| "compact_members [(k, v)] = CHR 0x22 # escaped k @ CHR 0x22 # CHR '':'' # compact v"
| "compact_members ((k, v) # kvs) =
     CHR 0x22 # escaped k @ CHR 0x22 # CHR '':'' # compact v @ CHR '','' # compact_members kvs"

definition example_documents :: "(string \<times> json) list" where
  "example_documents =
     [(''{\"new\":\"1234\",\"confirm\":\"1234\"}'',
         JObj [(''new'', JStr ''1234''), (''confirm'', JStr ''1234'')]),
      (''{\"current\":\"1234\",\"new\":\"56789\",\"confirm\":\"56789\"}'',
         JObj [(''current'', JStr ''1234''), (''new'', JStr ''56789''),
               (''confirm'', JStr ''56789'')]),
      (''{\"current\":\"0000\",\"new\":\"5678\",\"confirm\":\"5678\"}'',
         JObj [(''current'', JStr ''0000''), (''new'', JStr ''5678''),
               (''confirm'', JStr ''5678'')]),
      (''{\"current\":\"0000\",\"new\":\"12\",\"confirm\":\"12\"}'',
         JObj [(''current'', JStr ''0000''), (''new'', JStr ''12''), (''confirm'', JStr ''12'')]),
      (''{\"current\":\"1234\",\"new\":\"5678\",\"confirm\":\"5679\"}'',
         JObj [(''current'', JStr ''1234''), (''new'', JStr ''5678''),
               (''confirm'', JStr ''5679'')]),
      (''{\"current\":\"1234\",\"confirm\":\"5678\"}'',
         JObj [(''current'', JStr ''1234''), (''confirm'', JStr ''5678'')]),
      (''{\"code\":\"1234\"}'', JObj [(''code'', JStr ''1234'')]),
      (''{\"code\":1234}'', JObj [(''code'', JInt 1234)])]"

definition example_json :: arduinojson where
  "example_json =
     \<lparr>deserializeJson = (\<lambda>capacity text. map_of example_documents text),
      serializeJson = compact\<rparr>"

text \<open>The device before a code is set, and with the code 1234 set and saved.\<close>

definition state_unset :: state where
  "state_unset = \<lparr>masterCode = '''', fs = Map.empty\<rparr>"

definition state_1234 :: state where
  "state_1234 = \<lparr>masterCode = ''1234'', fs = [FILE_CODE \<mapsto> ''{\"code\":\"1234\"}'']\<rparr>"

section \<open>Properties\<close>

subsection \<open>The handler's format test is the specification's format\<close>

lemma digit_char_iff:
  "\<not> (c < CHR ''0'' \<or> c > CHR ''9'') \<longleftrightarrow> c \<in> set ''0123456789''"
proof -
  define n :: nat where "n = of_char c"
  have eq: "\<And>d. (c = d) \<longleftrightarrow> (n = of_char d)"
    by (auto simp: n_def)
  have "(48 \<le> n \<and> n \<le> 57) \<longleftrightarrow> n \<in> {48, 49, 50, 51, 52, 53, 54, 55, 56, 57}"
    by (simp; arith)
  moreover have "\<not> (c < CHR ''0'' \<or> c > CHR ''9'') \<longleftrightarrow> (48 \<le> n \<and> n \<le> 57)"
    by (auto simp: less_char_def n_def)
  moreover have "c \<in> set ''0123456789'' \<longleftrightarrow> n \<in> {48, 49, 50, 51, 52, 53, 54, 55, 56, 57}"
    by (simp add: eq)
  ultimately show ?thesis by blast
qed

lemma isDigits_iff: "isDigits s \<longleftrightarrow> set s \<subseteq> set ''0123456789''"
proof (induction s)
  case Nil
  show ?case by simp
next
  case (Cons c cs)
  have "isDigits (c # cs) \<longleftrightarrow> \<not> (c < CHR ''0'' \<or> c > CHR ''9'') \<and> isDigits cs"
    by simp
  also have "\<dots> \<longleftrightarrow> c \<in> set ''0123456789'' \<and> set cs \<subseteq> set ''0123456789''"
    using Cons.IH digit_char_iff [of c] by blast
  finally show ?case by simp
qed

lemma format_check_iff:
  "(length s < 4 \<or> length s > 8 \<or> \<not> isDigits s) \<longleftrightarrow> \<not> four_to_eight_digits s"
  by (auto simp: four_to_eight_digits_def isDigits_iff)

subsection \<open>The POST pipeline, stage by stage\<close>

lemma saveCode_cases:
  "saveCode L file_ok code st =
     (if file_ok
      then (True, st\<lparr>fs := (fs st)(FILE_CODE \<mapsto> serializeJson L (JObj [(''code'', JStr code)])),
                     masterCode := code\<rparr>)
      else (False, st))"
  by (simp add: saveCode_def)

lemma post_no_body:
  "handleCodePost L file_ok None st =
     (sendJsonWithCORS 400 ''{\"ok\":false,\"err\":\"no_body\"}'', st)"
  by (simp add: handleCodePost_def)

lemma post_unparsed:
  "deserializeJson L 256 arg = None \<Longrightarrow>
   handleCodePost L file_ok (Some arg) st =
     (sendJsonWithCORS 400 ''{\"ok\":false,\"err\":\"json\"}'', st)"
  by (simp add: handleCodePost_def)

lemma post_parsed:
  assumes "deserializeJson L 256 arg = Some d"
  shows "handleCodePost L file_ok (Some arg) st =
     (if \<not> four_to_eight_digits (field_or_empty d ''new'') then
        (sendJsonWithCORS 400 ''{\"ok\":false,\"err\":\"fmt\",\"hint\":\"4-8 cifre\"}'', st)
      else if field_or_empty d ''new'' \<noteq> field_or_empty d ''confirm'' then
        (sendJsonWithCORS 400 ''{\"ok\":false,\"err\":\"confirm\"}'', st)
      else if masterCode st \<noteq> [] \<and> field_or_empty d ''current'' \<noteq> masterCode st then
        (sendJsonWithCORS 403 ''{\"ok\":false,\"err\":\"current\"}'', st)
      else if file_ok then
        (sendJsonWithCORS 200 ''{\"ok\":true}'',
         st\<lparr>fs := (fs st)(FILE_CODE \<mapsto>
                  serializeJson L (JObj [(''code'', JStr (field_or_empty d ''new''))])),
            masterCode := field_or_empty d ''new''\<rparr>)
      else
        (sendJsonWithCORS 500 ''{\"ok\":false,\"err\":\"save\"}'', st))"
  using assms format_check_iff [of "field_or_empty d ''new''"]
  by (simp add: handleCodePost_def saveCode_cases Let_def)

lemma example_parse:
  "deserializeJson example_json capacity text = map_of example_documents text"
  by (simp add: example_json_def)

lemma status_sendJsonWithCORS: "status (sendJsonWithCORS code content) = code"
  by (simp add: sendJsonWithCORS_def)

lemma body_sendJsonWithCORS: "body (sendJsonWithCORS code content) = content"
  by (simp add: sendJsonWithCORS_def)

subsection \<open>What one request does to the code in memory\<close>

lemma post_code:
  "masterCode (snd (handleCodePost L file_ok plain st)) = masterCode st
   \<or> four_to_eight_digits (masterCode (snd (handleCodePost L file_ok plain st)))"
proof (cases plain)
  case None
  then show ?thesis by (simp add: post_no_body)
next
  case (Some arg)
  then show ?thesis
    by (cases "deserializeJson L 256 arg") (simp_all add: post_unparsed post_parsed)
qed

lemma step_code:
  "masterCode (snd (registerCodeApi L file_ok req st)) = masterCode st
   \<or> four_to_eight_digits (masterCode (snd (registerCodeApi L file_ok req st)))"
  using post_code by (cases req) (simp_all add: registerCodeApi_def handleCodeGet_def)

lemma run_append: "run L (reqs @ later) st = run L later (run L reqs st)"
  by (induction reqs arbitrary: st) auto

subsection \<open>Claims about the POST handler\<close>

text \<open>
  C1. Take a POST whose body parses, whose \<open>new\<close> field is a valid code and whose
  \<open>confirm\<close> equals it. If a code is stored and \<open>current\<close> differs from it, the answer
  is 403 with err \<open>current\<close> and the state (code and file) is unchanged. If no code is
  stored, \<open>current\<close> is not looked at: the request goes on to the save, and the answer
  (200 with the new code stored, or 500 when the file cannot be opened) does not depend
  on \<open>current\<close>.
\<close>

theorem post_current_check:
  assumes "deserializeJson L 256 arg = Some d"
    and "four_to_eight_digits (field_or_empty d ''new'')"
    and "field_or_empty d ''confirm'' = field_or_empty d ''new''"
  shows "(masterCode st \<noteq> [] \<and> field_or_empty d ''current'' \<noteq> masterCode st \<longrightarrow>
            handleCodePost L file_ok (Some arg) st =
              (sendJsonWithCORS 403 ''{\"ok\":false,\"err\":\"current\"}'', st))
       \<and> (masterCode st = [] \<longrightarrow>
            handleCodePost L file_ok (Some arg) st =
              (if file_ok then
                 (sendJsonWithCORS 200 ''{\"ok\":true}'',
                  st\<lparr>fs := (fs st)(FILE_CODE \<mapsto>
                           serializeJson L (JObj [(''code'', JStr (field_or_empty d ''new''))])),
                     masterCode := field_or_empty d ''new''\<rparr>)
               else (sendJsonWithCORS 500 ''{\"ok\":false,\"err\":\"save\"}'', st)))"
  using assms by (simp add: post_parsed)

theorem post_current_check_witness:
  "handleCodePost example_json True
       (Some ''{\"current\":\"0000\",\"new\":\"5678\",\"confirm\":\"5678\"}'') state_1234 =
     (sendJsonWithCORS 403 ''{\"ok\":false,\"err\":\"current\"}'', state_1234)
   \<and> handleCodePost example_json True
       (Some ''{\"current\":\"0000\",\"new\":\"5678\",\"confirm\":\"5678\"}'') state_unset =
     (sendJsonWithCORS 200 ''{\"ok\":true}'',
      state_unset\<lparr>fs := [FILE_CODE \<mapsto> ''{\"code\":\"5678\"}''], masterCode := ''5678''\<rparr>)"
proof -
  let ?arg = "''{\"current\":\"0000\",\"new\":\"5678\",\"confirm\":\"5678\"}''"
  let ?d = "JObj [(''current'', JStr ''0000''), (''new'', JStr ''5678''),
                  (''confirm'', JStr ''5678'')]"
  have p: "deserializeJson example_json 256 ?arg = Some ?d"
    by (simp add: example_parse example_documents_def)
  have v: "four_to_eight_digits (field_or_empty ?d ''new'')"
    by (simp add: four_to_eight_digits_def)
  have c: "field_or_empty ?d ''confirm'' = field_or_empty ?d ''new''"
    by simp
  have s: "serializeJson example_json (JObj [(''code'', JStr ''5678'')]) = ''{\"code\":\"5678\"}''"
    by (simp add: example_json_def)
  have "handleCodePost example_json True (Some ?arg) state_1234 =
          (sendJsonWithCORS 403 ''{\"ok\":false,\"err\":\"current\"}'', state_1234)"
    using post_current_check [OF p v c, of state_1234 True]
    by (simp add: state_1234_def)
  moreover have "handleCodePost example_json True (Some ?arg) state_unset =
     (sendJsonWithCORS 200 ''{\"ok\":true}'',
      state_unset\<lparr>fs := [FILE_CODE \<mapsto> ''{\"code\":\"5678\"}''], masterCode := ''5678''\<rparr>)"
    using post_current_check [OF p v c, of state_unset True] s
    by (simp add: state_unset_def)
  ultimately show ?thesis by simp
qed

text \<open>
  C2. Whenever a POST is answered 200, its body parsed, its \<open>new\<close> field N is a valid
  code, and afterwards the code in memory is N, the file holds the record with code N
  (the serialization of \<^verbatim>\<open>{"code": N}\<close>), and a GET that follows is answered 200 with
  \<^verbatim>\<open>set\<close> true and \<^verbatim>\<open>len\<close> the length of N, leaving that state as it is.
\<close>

theorem post_ok_then_get:
  assumes "handleCodePost L file_ok plain st = (r, st')"
    and "status r = 200"
  shows "\<exists>arg d N. plain = Some arg \<and> deserializeJson L 256 arg = Some d
           \<and> N = field_or_empty d ''new''
           \<and> four_to_eight_digits N
           \<and> masterCode st' = N
           \<and> fs st' FILE_CODE = Some (serializeJson L (JObj [(''code'', JStr N)]))
           \<and> handleCodeGet L st' =
               (sendJsonWithCORS 200
                  (serializeJson L
                     (JObj [(''set'', JBool True), (''len'', JInt (int (length N)))])),
                st')"
proof (cases plain)
  case None
  with assms show ?thesis
    by (auto simp: post_no_body status_sendJsonWithCORS)
next
  case (Some arg)
  show ?thesis
  proof (cases "deserializeJson L 256 arg")
    case None
    with assms Some show ?thesis
      by (auto simp: post_unparsed status_sendJsonWithCORS)
  next
    case (Some d)
    let ?N = "field_or_empty d ''new''"
    from assms \<open>plain = Some arg\<close> Some
    have ok: "four_to_eight_digits ?N"
      and st': "st' = st\<lparr>fs := (fs st)(FILE_CODE \<mapsto> serializeJson L (JObj [(''code'', JStr ?N)])),
                         masterCode := ?N\<rparr>"
      by (auto simp: post_parsed status_sendJsonWithCORS split: if_splits)
    from ok have "4 \<le> length ?N"
      by (simp add: four_to_eight_digits_def)
    then have len: "0 < length ?N"
      by linarith
    have get: "handleCodeGet L st' =
        (sendJsonWithCORS 200
           (serializeJson L (JObj [(''set'', JBool True), (''len'', JInt (int (length ?N)))])),
         st')"
      using len by (simp add: handleCodeGet_def st')
    from \<open>plain = Some arg\<close> Some ok get show ?thesis
      by (simp add: st')
  qed
qed

theorem post_ok_then_get_witness:
  "status (fst (handleCodePost example_json True
       (Some ''{\"current\":\"1234\",\"new\":\"56789\",\"confirm\":\"56789\"}'') state_1234)) = 200
   \<and> masterCode (snd (handleCodePost example_json True
       (Some ''{\"current\":\"1234\",\"new\":\"56789\",\"confirm\":\"56789\"}'') state_1234))
       = ''56789''
   \<and> fs (snd (handleCodePost example_json True
       (Some ''{\"current\":\"1234\",\"new\":\"56789\",\"confirm\":\"56789\"}'') state_1234))
       FILE_CODE = Some ''{\"code\":\"56789\"}''
   \<and> fst (handleCodeGet example_json (snd (handleCodePost example_json True
       (Some ''{\"current\":\"1234\",\"new\":\"56789\",\"confirm\":\"56789\"}'') state_1234)))
       = sendJsonWithCORS 200 ''{\"set\":true,\"len\":5}''"
proof -
  let ?arg = "''{\"current\":\"1234\",\"new\":\"56789\",\"confirm\":\"56789\"}''"
  let ?d = "JObj [(''current'', JStr ''1234''), (''new'', JStr ''56789''),
                  (''confirm'', JStr ''56789'')]"
  obtain r st' where post: "handleCodePost example_json True (Some ?arg) state_1234 = (r, st')"
    by (cases "handleCodePost example_json True (Some ?arg) state_1234")
  have p: "deserializeJson example_json 256 ?arg = Some ?d"
    by (simp add: example_parse example_documents_def)
  have "four_to_eight_digits ''56789''"
    by (simp add: four_to_eight_digits_def)
  with post have ok: "status r = 200"
    by (auto simp: post_parsed [OF p] state_1234_def status_sendJsonWithCORS)
  from post_ok_then_get [OF post ok] p
  have "masterCode st' = ''56789''"
    and "fs st' FILE_CODE = Some (serializeJson example_json (JObj [(''code'', JStr ''56789'')]))"
    and "handleCodeGet example_json st' =
          (sendJsonWithCORS 200
             (serializeJson example_json
                (JObj [(''set'', JBool True), (''len'', JInt (int (length ''56789'')))])),
           st')"
    by auto
  moreover have "serializeJson example_json (JObj [(''code'', JStr ''56789'')])
      = ''{\"code\":\"56789\"}''"
    by (simp add: example_json_def)
  moreover have "serializeJson example_json
      (JObj [(''set'', JBool True), (''len'', JInt (int (length ''56789'')))])
      = ''{\"set\":true,\"len\":5}''"
    by (simp add: example_json_def decimal.simps)
  ultimately show ?thesis
    using post ok by simp
qed

text \<open>
  C3. A POST whose body parses and whose \<open>new\<close> field is not a string of four to eight
  ASCII decimal digits (a missing or non-string \<open>new\<close> reads as the empty string) is
  answered 400 with the body \<^verbatim>\<open>{"ok":false,"err":"fmt","hint":"4-8 cifre"}\<close>, whatever
  the other fields, the stored code and the file system are; nothing is changed.
\<close>

theorem post_bad_format:
  assumes "deserializeJson L 256 arg = Some d"
    and "\<not> four_to_eight_digits (field_or_empty d ''new'')"
  shows "handleCodePost L file_ok (Some arg) st =
     (sendJsonWithCORS 400 ''{\"ok\":false,\"err\":\"fmt\",\"hint\":\"4-8 cifre\"}'', st)"
  using assms by (simp add: post_parsed)

theorem post_bad_format_witness:
  "deserializeJson example_json 256 ''{\"current\":\"1234\",\"confirm\":\"5678\"}'' =
     Some (JObj [(''current'', JStr ''1234''), (''confirm'', JStr ''5678'')])
   \<and> field_or_empty (JObj [(''current'', JStr ''1234''), (''confirm'', JStr ''5678'')]) ''new''
       = ''''
   \<and> \<not> four_to_eight_digits ''''
   \<and> handleCodePost example_json True (Some ''{\"current\":\"1234\",\"confirm\":\"5678\"}'')
       state_1234 =
     (sendJsonWithCORS 400 ''{\"ok\":false,\"err\":\"fmt\",\"hint\":\"4-8 cifre\"}'', state_1234)"
proof -
  let ?arg = "''{\"current\":\"1234\",\"confirm\":\"5678\"}''"
  let ?d = "JObj [(''current'', JStr ''1234''), (''confirm'', JStr ''5678'')]"
  have p: "deserializeJson example_json 256 ?arg = Some ?d"
    by (simp add: example_parse example_documents_def)
  have f: "field_or_empty ?d ''new'' = ''''"
    by simp
  have n: "\<not> four_to_eight_digits (field_or_empty ?d ''new'')"
    by (simp add: four_to_eight_digits_def)
  show ?thesis
    using p f n post_bad_format [OF p n, of True state_1234] by simp
qed

text \<open>
  C4, as stated, fails: with the code 1234 stored, the POST body
  \<^verbatim>\<open>{"current":"0000","new":"12","confirm":"12"}\<close> has the wrong \<open>current\<close>, yet the
  answer is 400, not 403, since the format of \<open>new\<close> is tested first.
\<close>

theorem post_wrong_current_counterexample:
  "masterCode state_1234 = ''1234''
   \<and> deserializeJson example_json 256 ''{\"current\":\"0000\",\"new\":\"12\",\"confirm\":\"12\"}'' =
       Some (JObj [(''current'', JStr ''0000''), (''new'', JStr ''12''), (''confirm'', JStr ''12'')])
   \<and> field_or_empty
         (JObj [(''current'', JStr ''0000''), (''new'', JStr ''12''), (''confirm'', JStr ''12'')])
         ''current'' = ''0000''
   \<and> status (fst (handleCodePost example_json True
         (Some ''{\"current\":\"0000\",\"new\":\"12\",\"confirm\":\"12\"}'') state_1234)) = 400"
  by (simp add: handleCodePost_def example_parse example_documents_def state_1234_def
      status_sendJsonWithCORS)

text \<open>
  C4, amended. With the code 1234 stored, a POST whose body parses with \<open>current\<close> equal
  to 0000 is answered 403 when \<open>new\<close> is a valid code and \<open>confirm\<close> equals it, and
  400 otherwise (the format and confirm tests come first). The state is unchanged either
  way.
\<close>

theorem post_wrong_current:
  assumes "masterCode st = ''1234''"
    and "deserializeJson L 256 arg = Some d"
    and "field_or_empty d ''current'' = ''0000''"
  shows "status (fst (handleCodePost L file_ok (Some arg) st)) =
           (if four_to_eight_digits (field_or_empty d ''new'')
               \<and> field_or_empty d ''confirm'' = field_or_empty d ''new''
            then 403 else 400)
       \<and> snd (handleCodePost L file_ok (Some arg) st) = st"
  using assms by (auto simp: post_parsed status_sendJsonWithCORS)

theorem post_wrong_current_witness:
  "masterCode state_1234 = ''1234''
   \<and> deserializeJson example_json 256
         ''{\"current\":\"0000\",\"new\":\"5678\",\"confirm\":\"5678\"}'' =
       Some (JObj [(''current'', JStr ''0000''), (''new'', JStr ''5678''),
                   (''confirm'', JStr ''5678'')])
   \<and> status (fst (handleCodePost example_json True
         (Some ''{\"current\":\"0000\",\"new\":\"5678\",\"confirm\":\"5678\"}'') state_1234)) = 403
   \<and> snd (handleCodePost example_json True
         (Some ''{\"current\":\"0000\",\"new\":\"5678\",\"confirm\":\"5678\"}'') state_1234)
       = state_1234"
proof -
  let ?arg = "''{\"current\":\"0000\",\"new\":\"5678\",\"confirm\":\"5678\"}''"
  let ?d = "JObj [(''current'', JStr ''0000''), (''new'', JStr ''5678''),
                  (''confirm'', JStr ''5678'')]"
  have m: "masterCode state_1234 = ''1234''"
    by (simp add: state_1234_def)
  have p: "deserializeJson example_json 256 ?arg = Some ?d"
    by (simp add: example_parse example_documents_def)
  have c: "field_or_empty ?d ''current'' = ''0000''"
    by simp
  have v: "four_to_eight_digits ''5678''"
    by (simp add: four_to_eight_digits_def)
  show ?thesis
    using m p v post_wrong_current [OF m p c, of True] by simp
qed

text \<open>
  C5, as stated, fails: the body of an error answer is not the object with the
  \<^verbatim>\<open>err\<close> tag alone. A POST without a body is answered
  \<^verbatim>\<open>{"ok":false,"err":"no_body"}\<close>, which is not \<^verbatim>\<open>{"err":"no_body"}\<close>.
\<close>

theorem post_error_body_counterexample:
  "body (fst (handleCodePost example_json True None state_unset))
     = ''{\"ok\":false,\"err\":\"no_body\"}''
   \<and> body (fst (handleCodePost example_json True None state_unset)) \<noteq> ''{\"err\":\"no_body\"}''"
  by (simp add: post_no_body body_sendJsonWithCORS)

text \<open>
  C5, amended. Every error body carries \<^verbatim>\<open>"ok":false\<close> before the \<^verbatim>\<open>err\<close> tag
  (and the hint, for fmt). A POST without a body is answered 400
  \<^verbatim>\<open>{"ok":false,"err":"no_body"}\<close>; one whose body does not parse, 400
  \<^verbatim>\<open>{"ok":false,"err":"json"}\<close>; and every answer other than the 200
  \<^verbatim>\<open>{"ok":true}\<close> is one of the six: 400 no\_body, 400 json, 400 fmt with the hint,
  400 confirm, 403 current, 500 save, each with \<^verbatim>\<open>"ok":false\<close>.
\<close>

theorem post_error_bodies:
  assumes "handleCodePost L file_ok plain st = (r, st')"
  shows "(plain = None \<longrightarrow> r = sendJsonWithCORS 400 ''{\"ok\":false,\"err\":\"no_body\"}'')
       \<and> (\<forall>arg. plain = Some arg \<and> deserializeJson L 256 arg = None \<longrightarrow>
             r = sendJsonWithCORS 400 ''{\"ok\":false,\"err\":\"json\"}'')
       \<and> (status r \<noteq> 200 \<longrightarrow>
             r \<in> {sendJsonWithCORS 400 ''{\"ok\":false,\"err\":\"no_body\"}'',
                   sendJsonWithCORS 400 ''{\"ok\":false,\"err\":\"json\"}'',
                   sendJsonWithCORS 400 ''{\"ok\":false,\"err\":\"fmt\",\"hint\":\"4-8 cifre\"}'',
                   sendJsonWithCORS 400 ''{\"ok\":false,\"err\":\"confirm\"}'',
                   sendJsonWithCORS 403 ''{\"ok\":false,\"err\":\"current\"}'',
                   sendJsonWithCORS 500 ''{\"ok\":false,\"err\":\"save\"}''})
       \<and> (status r = 200 \<longrightarrow> r = sendJsonWithCORS 200 ''{\"ok\":true}'')"
proof (cases plain)
  case None
  with assms have "r = sendJsonWithCORS 400 ''{\"ok\":false,\"err\":\"no_body\"}''"
    by (simp add: post_no_body)
  with None show ?thesis
    by (simp add: status_sendJsonWithCORS)
next
  case (Some arg)
  show ?thesis
  proof (cases "deserializeJson L 256 arg")
    case None
    with assms Some have "r = sendJsonWithCORS 400 ''{\"ok\":false,\"err\":\"json\"}''"
      by (simp add: post_unparsed)
    with Some None show ?thesis
      by (simp add: status_sendJsonWithCORS)
  next
    case d: (Some d)
    from assms Some have "fst (handleCodePost L file_ok (Some arg) st) = r"
      by simp
    then have "r \<in> {sendJsonWithCORS 400 ''{\"ok\":false,\"err\":\"fmt\",\"hint\":\"4-8 cifre\"}'',
                   sendJsonWithCORS 400 ''{\"ok\":false,\"err\":\"confirm\"}'',
                   sendJsonWithCORS 403 ''{\"ok\":false,\"err\":\"current\"}'',
                   sendJsonWithCORS 500 ''{\"ok\":false,\"err\":\"save\"}'',
                   sendJsonWithCORS 200 ''{\"ok\":true}''}"
      unfolding post_parsed [OF d] by (auto split: if_splits)
    with Some d show ?thesis
      by (auto simp: status_sendJsonWithCORS)
  qed
qed

theorem post_error_bodies_witness:
  "handleCodePost example_json True None state_unset =
     (sendJsonWithCORS 400 ''{\"ok\":false,\"err\":\"no_body\"}'', state_unset)
   \<and> deserializeJson example_json 256 ''code=1234'' = None
   \<and> fst (handleCodePost example_json True (Some ''code=1234'') state_unset) =
       sendJsonWithCORS 400 ''{\"ok\":false,\"err\":\"json\"}''"
proof -
  have p: "deserializeJson example_json 256 ''code=1234'' = None"
    by (simp add: example_parse example_documents_def)
  have a: "handleCodePost example_json True None state_unset =
      (fst (handleCodePost example_json True None state_unset), state_unset)"
    by (simp add: post_no_body)
  have b: "handleCodePost example_json True (Some ''code=1234'') state_unset =
      (fst (handleCodePost example_json True (Some ''code=1234'') state_unset), state_unset)"
    by (simp add: post_unparsed [OF p])
  show ?thesis
    using p a post_error_bodies [OF a] post_error_bodies [OF b] by simp
qed

text \<open>
  C6. A POST whose body parses and whose \<open>new\<close> field is a valid code that differs
  from \<open>confirm\<close> (a missing \<open>confirm\<close> reads as the empty string) is answered 400
  with err \<open>confirm\<close>. The stored code and the \<open>current\<close> field play no part: the
  answer is the same for every state and every \<open>current\<close>, and the state is unchanged.
\<close>

theorem post_confirm_mismatch:
  assumes "deserializeJson L 256 arg = Some d"
    and "four_to_eight_digits (field_or_empty d ''new'')"
    and "field_or_empty d ''new'' \<noteq> field_or_empty d ''confirm''"
  shows "handleCodePost L file_ok (Some arg) st =
     (sendJsonWithCORS 400 ''{\"ok\":false,\"err\":\"confirm\"}'', st)"
  using assms by (simp add: post_parsed)

theorem post_confirm_mismatch_witness:
  "deserializeJson example_json 256
       ''{\"current\":\"1234\",\"new\":\"5678\",\"confirm\":\"5679\"}'' =
     Some (JObj [(''current'', JStr ''1234''), (''new'', JStr ''5678''),
                 (''confirm'', JStr ''5679'')])
   \<and> four_to_eight_digits ''5678''
   \<and> ''5678'' \<noteq> ''5679''
   \<and> handleCodePost example_json True
       (Some ''{\"current\":\"1234\",\"new\":\"5678\",\"confirm\":\"5679\"}'') state_1234 =
     (sendJsonWithCORS 400 ''{\"ok\":false,\"err\":\"confirm\"}'', state_1234)"
proof -
  let ?arg = "''{\"current\":\"1234\",\"new\":\"5678\",\"confirm\":\"5679\"}''"
  let ?d = "JObj [(''current'', JStr ''1234''), (''new'', JStr ''5678''),
                  (''confirm'', JStr ''5679'')]"
  have p: "deserializeJson example_json 256 ?arg = Some ?d"
    by (simp add: example_parse example_documents_def)
  have v: "four_to_eight_digits (field_or_empty ?d ''new'')"
    by (simp add: four_to_eight_digits_def)
  have m: "field_or_empty ?d ''new'' \<noteq> field_or_empty ?d ''confirm''"
    by simp
  show ?thesis
    using p v m post_confirm_mismatch [OF p v m, of True state_1234] by simp
qed

subsection \<open>Claims about GET, the code store and the routes\<close>

text \<open>
  C7. In every state GET is answered 200 with the serialization of
  \<^verbatim>\<open>{"set": b, "len": n}\<close>, where \<open>b\<close> holds exactly when the code in memory is
  not empty and \<open>n\<close> is its length; the state (code and files) is returned as it
  was. With no code set the document is \<^verbatim>\<open>{"set":false,"len":0}\<close>.
\<close>

theorem get_reports_code:
  "handleCodeGet L st =
     (sendJsonWithCORS 200
        (serializeJson L
           (JObj [(''set'', JBool (masterCode st \<noteq> [])),
                  (''len'', JInt (int (length (masterCode st))))])),
      st)
   \<and> status (fst (handleCodeGet L st)) = 200
   \<and> (masterCode st = [] \<longrightarrow>
        body (fst (handleCodeGet L st)) =
          serializeJson L (JObj [(''set'', JBool False), (''len'', JInt 0)]))"
  by (simp add: handleCodeGet_def status_sendJsonWithCORS body_sendJsonWithCORS)

theorem get_reports_code_witness:
  "masterCode state_unset = []
   \<and> handleCodeGet example_json state_unset =
       (sendJsonWithCORS 200 ''{\"set\":false,\"len\":0}'', state_unset)
   \<and> handleCodeGet example_json state_1234 =
       (sendJsonWithCORS 200 ''{\"set\":true,\"len\":4}'', state_1234)"
proof -
  have u: "masterCode state_unset = []"
    by (simp add: state_unset_def)
  have m: "masterCode state_1234 = ''1234''"
    by (simp add: state_1234_def)
  have "serializeJson example_json (JObj [(''set'', JBool False), (''len'', JInt 0)])
      = ''{\"set\":false,\"len\":0}''"
    by (simp add: example_json_def decimal.simps)
  moreover have "serializeJson example_json (JObj [(''set'', JBool True), (''len'', JInt 4)])
      = ''{\"set\":true,\"len\":4}''"
    by (simp add: example_json_def decimal.simps)
  ultimately show ?thesis
    using u m get_reports_code [of example_json state_unset]
      get_reports_code [of example_json state_1234]
    by simp
qed

text \<open>
  C8. \<open>loadCode\<close> fails and leaves the state as it was when the file is absent, cannot
  be opened, does not parse, or its document has no string member \<open>code\<close>. When the
  file is there, opens, parses and has a string member \<open>code\<close>, \<open>loadCode\<close>
  succeeds and the code in memory is that string (the files are untouched). It succeeds
  in no other case.
\<close>

theorem loadCode_outcomes:
  "(fs st FILE_CODE = None \<longrightarrow> loadCode L file_ok st = (False, st))
   \<and> (\<not> file_ok \<longrightarrow> loadCode L file_ok st = (False, st))
   \<and> (\<forall>text. fs st FILE_CODE = Some text \<and> deserializeJson L 128 text = None \<longrightarrow>
         loadCode L file_ok st = (False, st))
   \<and> (\<forall>text d. fs st FILE_CODE = Some text \<and> deserializeJson L 128 text = Some d
         \<and> (\<forall>c. getMember d ''code'' \<noteq> JStr c) \<longrightarrow>
         loadCode L file_ok st = (False, st))
   \<and> (\<forall>text d c. fs st FILE_CODE = Some text \<and> file_ok
         \<and> deserializeJson L 128 text = Some d \<and> getMember d ''code'' = JStr c \<longrightarrow>
         loadCode L file_ok st = (True, st\<lparr>masterCode := c\<rparr>))
   \<and> (fst (loadCode L file_ok st) \<longrightarrow>
         (\<exists>text d c. fs st FILE_CODE = Some text \<and> file_ok
            \<and> deserializeJson L 128 text = Some d \<and> getMember d ''code'' = JStr c))"
proof -
  have no_string: "variant_or v None = None" if "\<forall>c. v \<noteq> JStr c" for v
    using that by (cases v) auto
  have a: "fs st FILE_CODE = None \<longrightarrow> loadCode L file_ok st = (False, st)"
    by (simp add: loadCode_def)
  have b: "\<not> file_ok \<longrightarrow> loadCode L file_ok st = (False, st)"
    by (simp add: loadCode_def split: option.splits)
  have c: "\<forall>text. fs st FILE_CODE = Some text \<and> deserializeJson L 128 text = None \<longrightarrow>
         loadCode L file_ok st = (False, st)"
    by (simp add: loadCode_def)
  have d: "\<forall>text d. fs st FILE_CODE = Some text \<and> deserializeJson L 128 text = Some d
         \<and> (\<forall>c. getMember d ''code'' \<noteq> JStr c) \<longrightarrow>
         loadCode L file_ok st = (False, st)"
    by (auto simp: loadCode_def no_string)
  have e: "\<forall>text d c. fs st FILE_CODE = Some text \<and> file_ok
         \<and> deserializeJson L 128 text = Some d \<and> getMember d ''code'' = JStr c \<longrightarrow>
         loadCode L file_ok st = (True, st\<lparr>masterCode := c\<rparr>)"
    by (simp add: loadCode_def)
  have f: "fst (loadCode L file_ok st) \<longrightarrow>
         (\<exists>text d c. fs st FILE_CODE = Some text \<and> file_ok
            \<and> deserializeJson L 128 text = Some d \<and> getMember d ''code'' = JStr c)"
  proof
    assume ok: "fst (loadCode L file_ok st)"
    then obtain bytes where t: "fs st FILE_CODE = Some bytes"
      using a by (cases "fs st FILE_CODE") auto
    from ok have o: "file_ok"
      using b by (cases file_ok) auto
    from ok t obtain d where p: "deserializeJson L 128 bytes = Some d"
      using c by (cases "deserializeJson L 128 bytes") auto
    from ok t p obtain c where "getMember d ''code'' = JStr c"
      using d by fastforce
    with t o p show "\<exists>text d c. fs st FILE_CODE = Some text \<and> file_ok
            \<and> deserializeJson L 128 text = Some d \<and> getMember d ''code'' = JStr c"
      by blast
  qed
  from a b c d e f show ?thesis
    by blast
qed

theorem loadCode_outcomes_witness:
  "loadCode example_json True state_unset = (False, state_unset)
   \<and> loadCode example_json False state_1234 = (False, state_1234)
   \<and> loadCode example_json True (state_unset\<lparr>fs := [FILE_CODE \<mapsto> ''{code''], masterCode := ''4321''\<rparr>)
       = (False, state_unset\<lparr>fs := [FILE_CODE \<mapsto> ''{code''], masterCode := ''4321''\<rparr>)
   \<and> loadCode example_json True (state_unset\<lparr>fs := [FILE_CODE \<mapsto> ''{\"code\":1234}'']\<rparr>)
       = (False, state_unset\<lparr>fs := [FILE_CODE \<mapsto> ''{\"code\":1234}'']\<rparr>)
   \<and> loadCode example_json True (state_1234\<lparr>masterCode := ''''\<rparr>) = (True, state_1234)"
proof -
  let ?bad = "state_unset\<lparr>fs := [FILE_CODE \<mapsto> ''{code''], masterCode := ''4321''\<rparr>"
  let ?num = "state_unset\<lparr>fs := [FILE_CODE \<mapsto> ''{\"code\":1234}'']\<rparr>"
  let ?boot = "state_1234\<lparr>masterCode := ''''\<rparr>"
  have p1: "deserializeJson example_json 128 ''{code'' = None"
    by (simp add: example_parse example_documents_def)
  have p2: "deserializeJson example_json 128 ''{\"code\":1234}'' = Some (JObj [(''code'', JInt 1234)])"
    by (simp add: example_parse example_documents_def)
  have p3: "deserializeJson example_json 128 ''{\"code\":\"1234\"}''
      = Some (JObj [(''code'', JStr ''1234'')])"
    by (simp add: example_parse example_documents_def)
  have "loadCode example_json True state_unset = (False, state_unset)"
    using loadCode_outcomes [of state_unset example_json True]
    by (simp add: state_unset_def)
  moreover have "loadCode example_json False state_1234 = (False, state_1234)"
    using loadCode_outcomes [of state_1234 example_json False]
    by simp
  moreover have "loadCode example_json True ?bad = (False, ?bad)"
    using loadCode_outcomes [of ?bad example_json True] p1
    by (simp add: state_unset_def)
  moreover have "loadCode example_json True ?num = (False, ?num)"
    using loadCode_outcomes [of ?num example_json True] p2
    by (simp add: state_unset_def)
  moreover have "loadCode example_json True ?boot = (True, state_1234)"
    using loadCode_outcomes [of ?boot example_json True] p3
    by (simp add: state_1234_def)
  ultimately show ?thesis
    by simp
qed

text \<open>
  C9. OPTIONS is answered 204 with an empty body in every state (and leaves the state as
  it was), and the answer to every request on the path (GET, POST whatever its outcome,
  OPTIONS) carries the three headers Access-Control-Allow-Origin: *,
  Access-Control-Allow-Methods: GET,POST,OPTIONS and Access-Control-Allow-Headers:
  Content-Type.
\<close>

theorem options_and_cors_headers:
  "status (fst (registerCodeApi L file_ok OPTIONS st)) = 204
   \<and> body (fst (registerCodeApi L file_ok OPTIONS st)) = ''''
   \<and> snd (registerCodeApi L file_ok OPTIONS st) = st
   \<and> headers (fst (registerCodeApi L file_ok req st)) =
       [(''Access-Control-Allow-Origin'', ''*''),
        (''Access-Control-Allow-Methods'', ''GET,POST,OPTIONS''),
        (''Access-Control-Allow-Headers'', ''Content-Type'')]"
proof -
  let ?cors = "[(''Access-Control-Allow-Origin'', ''*''),
        (''Access-Control-Allow-Methods'', ''GET,POST,OPTIONS''),
        (''Access-Control-Allow-Headers'', ''Content-Type'')]"
  have json: "headers (sendJsonWithCORS code content) = ?cors" for code content
    by (simp add: sendJsonWithCORS_def)
  have post: "headers (fst (handleCodePost L file_ok plain st)) = ?cors" for plain
  proof (cases plain)
    case None
    then show ?thesis by (simp add: post_no_body json)
  next
    case (Some arg)
    then show ?thesis
      by (cases "deserializeJson L 256 arg") (simp_all add: post_unparsed post_parsed json)
  qed
  have "headers (fst (registerCodeApi L file_ok req st)) = ?cors"
    by (cases req) (simp_all add: registerCodeApi_def handleCodeGet_def json post)
  then show ?thesis
    by (simp add: registerCodeApi_def)
qed

theorem options_and_cors_headers_witness:
  "fst (registerCodeApi example_json True OPTIONS state_1234) =
     \<lparr>status = 204, content_type = ''text/plain'',
      headers = [(''Access-Control-Allow-Origin'', ''*''),
                 (''Access-Control-Allow-Methods'', ''GET,POST,OPTIONS''),
                 (''Access-Control-Allow-Headers'', ''Content-Type'')],
      body = ''''\<rparr>
   \<and> headers (fst (registerCodeApi example_json False
        (POST (Some ''{\"new\":\"1234\",\"confirm\":\"1234\"}'')) state_unset)) =
       [(''Access-Control-Allow-Origin'', ''*''),
        (''Access-Control-Allow-Methods'', ''GET,POST,OPTIONS''),
        (''Access-Control-Allow-Headers'', ''Content-Type'')]"
proof -
  have "content_type (fst (registerCodeApi example_json True OPTIONS state_1234)) = ''text/plain''"
    by (simp add: registerCodeApi_def)
  then show ?thesis
    using options_and_cors_headers [of example_json True state_1234 OPTIONS]
      options_and_cors_headers [of example_json False state_unset
        "POST (Some ''{\"new\":\"1234\",\"confirm\":\"1234\"}'')"]
    by (cases "fst (registerCodeApi example_json True OPTIONS state_1234)") simp
qed

text \<open>
  C10. Start with no code in memory and serve any sequence of requests, each with any
  answer of the file system. The code in memory is then empty or a string of four to
  eight ASCII decimal digits; and once it is not empty, no further requests make it empty
  again.
\<close>

theorem code_stays_well_formed:
  assumes "masterCode st = []"
  shows "(masterCode (run L reqs st) = [] \<or> four_to_eight_digits (masterCode (run L reqs st)))
       \<and> (masterCode (run L reqs st) \<noteq> [] \<longrightarrow> masterCode (run L (reqs @ later) st) \<noteq> [])"
proof -
  have wf: "masterCode (run L reqs s) = [] \<or> four_to_eight_digits (masterCode (run L reqs s))"
    if "masterCode s = [] \<or> four_to_eight_digits (masterCode s)" for s
    using that
  proof (induction reqs arbitrary: s)
    case Nil
    then show ?case by simp
  next
    case (Cons e reqs)
    obtain file_ok req where e: "e = (file_ok, req)"
      by (cases e)
    from Cons.prems step_code [of L file_ok req s]
    have "masterCode (snd (registerCodeApi L file_ok req s)) = []
        \<or> four_to_eight_digits (masterCode (snd (registerCodeApi L file_ok req s)))"
      by auto
    from Cons.IH [OF this] show ?case
      by (simp add: e)
  qed
  have keep: "masterCode (run L later s) \<noteq> []" if "masterCode s \<noteq> []" for s
    using that
  proof (induction later arbitrary: s)
    case Nil
    then show ?case by simp
  next
    case (Cons e later)
    obtain file_ok req where e: "e = (file_ok, req)"
      by (cases e)
    from Cons.prems step_code [of L file_ok req s]
    have "masterCode (snd (registerCodeApi L file_ok req s)) \<noteq> []"
      by (auto simp: four_to_eight_digits_def)
    from Cons.IH [OF this] show ?case
      by (simp add: e)
  qed
  from wf [of st] assms keep [of "run L reqs st"] show ?thesis
    by (simp add: run_append)
qed

theorem code_stays_well_formed_witness:
  "masterCode state_unset = []
   \<and> masterCode (run example_json
        [(True, GET),
         (False, POST (Some ''{\"new\":\"1234\",\"confirm\":\"1234\"}'')),
         (True, POST (Some ''{\"new\":\"1234\",\"confirm\":\"1234\"}'')),
         (True, POST (Some ''{\"current\":\"0000\",\"new\":\"5678\",\"confirm\":\"5678\"}'')),
         (True, OPTIONS)] state_unset) = ''1234''
   \<and> four_to_eight_digits ''1234''
   \<and> masterCode (run example_json
        ([(True, GET),
          (False, POST (Some ''{\"new\":\"1234\",\"confirm\":\"1234\"}'')),
          (True, POST (Some ''{\"new\":\"1234\",\"confirm\":\"1234\"}'')),
          (True, POST (Some ''{\"current\":\"0000\",\"new\":\"5678\",\"confirm\":\"5678\"}'')),
          (True, OPTIONS)]
         @ [(True, POST (Some ''{\"current\":\"1234\",\"new\":\"12\",\"confirm\":\"12\"}'')),
            (True, POST None)]) state_unset) \<noteq> []"
proof -
  let ?reqs = "[(True, GET),
         (False, POST (Some ''{\"new\":\"1234\",\"confirm\":\"1234\"}'')),
         (True, POST (Some ''{\"new\":\"1234\",\"confirm\":\"1234\"}'')),
         (True, POST (Some ''{\"current\":\"0000\",\"new\":\"5678\",\"confirm\":\"5678\"}'')),
         (True, OPTIONS)]"
  let ?later = "[(True, POST (Some ''{\"current\":\"1234\",\"new\":\"12\",\"confirm\":\"12\"}'')),
            (True, POST None)]"
  have u: "masterCode state_unset = []"
    by (simp add: state_unset_def)
  have r: "masterCode (run example_json ?reqs state_unset) = ''1234''"
    by (simp add: registerCodeApi_def handleCodeGet_def handleCodePost_def saveCode_def
        example_parse example_documents_def state_unset_def Let_def)
  from code_stays_well_formed [OF u, of example_json ?reqs ?later] r u show ?thesis
    by simp
qed


end
